theory Spec2Isabelle
  imports Main
begin

section \<open>Real-time notifications: data model\<close>

text \<open>
  The notification subsystem of the frontend lives in two source files: the service
  object \<open>notificationService\<close> (REST wrappers and \<open>subscribeToStream\<close>) and the React
  component \<open>NotificationProvider\<close> (the notification list, the unread counter and the
  handle of the server-sent-event stream).

  A notification is the JavaScript object the backend sends. The fields below are the
  ones the frontend reads: \<open>notificationId\<close>, \<open>type\<close>, \<open>status\<close>, \<open>message\<close>,
  \<open>createdDate\<close>, \<open>priority\<close> and \<open>actionRequired\<close>. \<open>status\<close> and \<open>priority\<close> are
  strings in the source and are compared with \<open>===\<close> against \<open>'UNREAD'\<close> and \<open>'HIGH'\<close>, so
  they stay strings here: a status other than \<open>''UNREAD''\<close> and \<open>''READ''\<close> is possible.
\<close>

record notification =
  notificationId :: int
  ntype :: string
  status :: string
  message :: string
  createdDate :: string
  priority :: string
  actionRequired :: bool

text \<open>Whatever a rejected promise or a \<open>throw\<close> carries.\<close>

datatype error = HttpError nat | NetworkError | SyntaxError | TypeError | StreamError

text \<open>\<open>console.error\<close> and \<open>console.warn\<close> lines, and the pop-ups of \<open>react-hot-toast\<close>.\<close>

datatype console_entry = ConsoleError string error | ConsoleWarn string error

datatype toast = ToastError string | ToastSuccess string | ToastIcon string

text \<open>
  An \<open>EventSource\<close> object of the browser: the URL it was constructed with and whether
  \<open>close()\<close> has been called on it. Objects are never freed in the model; a handle is the
  position of the object in the list of all objects constructed so far.
\<close>

record event_source =
  es_url :: string
  es_closed :: bool

text \<open>
  The state the provider's functions read and write. The first four fields are the
  component's own (\<open>useState([])\<close>, \<open>useState(0)\<close>, \<open>useState(false)\<close>, \<open>useRef(null)\<close>);
  the others are the browser around it: the \<open>token\<close> entry of \<open>localStorage\<close>, the
  \<open>EventSource\<close> objects, the console and the toasts shown.
\<close>

record provider =
  notifications :: "notification list"
  unreadCount :: int
  loading :: bool
  eventSourceRef :: "nat option"
  token :: "string option"
  sources :: "event_source list"
  console :: "console_entry list"
  toasts :: "toast list"

definition initial_provider :: "string option \<Rightarrow> provider" where
  "initial_provider tok =
     \<lparr>notifications = [], unreadCount = 0, loading = False, eventSourceRef = None,
      token = tok, sources = [], console = [], toasts = []\<rparr>"

section \<open>JavaScript control flow\<close>

text \<open>
  A piece of JavaScript is a function from the state to an outcome and the state after
  it: \<open>Inl e\<close> when it threw \<open>e\<close> (or awaited a promise rejected with \<open>e\<close>), \<open>Inr v\<close> when
  it completed with \<open>v\<close>. A statement that throws keeps the writes made before the throw.
\<close>

type_synonym 'a js = "provider \<Rightarrow> (error + 'a) \<times> provider"

definition js_return :: "'a \<Rightarrow> 'a js" where
  "js_return v = (\<lambda>s. (Inr v, s))"

definition js_throw :: "error \<Rightarrow> 'a js" where
  "js_throw e = (\<lambda>s. (Inl e, s))"

definition js_bind :: "'a js \<Rightarrow> ('a \<Rightarrow> 'b js) \<Rightarrow> 'b js" where
  "js_bind m f = (\<lambda>s. case m s of (Inl e, s') \<Rightarrow> (Inl e, s') | (Inr v, s') \<Rightarrow> f v s')"

definition js_seq :: "'a js \<Rightarrow> 'b js \<Rightarrow> 'b js" where
  "js_seq m n = js_bind m (\<lambda>_. n)"

text \<open>\<open>try { m } catch (e) { h(e) }\<close>\<close>

definition try_catch :: "'a js \<Rightarrow> (error \<Rightarrow> 'a js) \<Rightarrow> 'a js" where
  "try_catch m h = (\<lambda>s. case m s of (Inl e, s') \<Rightarrow> h e s' | (Inr v, s') \<Rightarrow> (Inr v, s'))"

text \<open>
  \<open>try { m } catch (e) { h(e) } finally { fin }\<close>: \<open>fin\<close> runs in every case; what it
  throws replaces the outcome of the \<open>try\<close>/\<open>catch\<close>.
\<close>

definition try_catch_finally :: "'a js \<Rightarrow> (error \<Rightarrow> 'a js) \<Rightarrow> unit js \<Rightarrow> 'a js" where
  "try_catch_finally m h fin =
     (\<lambda>s. case try_catch m h s of
             (r, s') \<Rightarrow> (case fin s' of (Inl e, s'') \<Rightarrow> (Inl e, s'') | (Inr _, s'') \<Rightarrow> (r, s'')))"

subsection \<open>State setters and the browser\<close>

text \<open>
  A React setter takes an updater \<open>prev => next\<close>; \<open>setX(v)\<close> with a plain value is the
  constant updater.
\<close>

definition setNotifications :: "(notification list \<Rightarrow> notification list) \<Rightarrow> unit js" where
  "setNotifications f = (\<lambda>s. (Inr (), s\<lparr>notifications := f (notifications s)\<rparr>))"

definition setUnreadCount :: "(int \<Rightarrow> int) \<Rightarrow> unit js" where
  "setUnreadCount f = (\<lambda>s. (Inr (), s\<lparr>unreadCount := f (unreadCount s)\<rparr>))"

definition setLoading :: "bool \<Rightarrow> unit js" where
  "setLoading b = (\<lambda>s. (Inr (), s\<lparr>loading := b\<rparr>))"

definition set_eventSourceRef :: "nat option \<Rightarrow> unit js" where
  "set_eventSourceRef h = (\<lambda>s. (Inr (), s\<lparr>eventSourceRef := h\<rparr>))"

definition console_error :: "string \<Rightarrow> error \<Rightarrow> unit js" where
  "console_error msg e = (\<lambda>s. (Inr (), s\<lparr>console := console s @ [ConsoleError msg e]\<rparr>))"

definition console_warn :: "string \<Rightarrow> error \<Rightarrow> unit js" where
  "console_warn msg e = (\<lambda>s. (Inr (), s\<lparr>console := console s @ [ConsoleWarn msg e]\<rparr>))"

definition show_toast :: "toast \<Rightarrow> unit js" where
  "show_toast t = (\<lambda>s. (Inr (), s\<lparr>toasts := toasts s @ [t]\<rparr>))"

text \<open>\<open>localStorage.getItem('token')\<close>: \<open>null\<close> is \<open>None\<close>.\<close>

definition getItem_token :: "string option js" where
  "getItem_token = (\<lambda>s. (Inr (token s), s))"

text \<open>JavaScript truthiness of the value read: \<open>null\<close> and the empty string are falsy.\<close>

definition truthy :: "string option \<Rightarrow> bool" where
  "truthy t = (case t of None \<Rightarrow> False | Some str \<Rightarrow> str \<noteq> [])"

text \<open>
  \<open>new EventSource(url)\<close>. The constructor belongs to the browser; \<open>ctor url\<close> says
  whether it throws for this URL (\<open>Some e\<close>) or constructs an object (\<open>None\<close>), which is
  then open and is appended to the browser's objects.
\<close>

definition new_EventSource :: "(string \<Rightarrow> error option) \<Rightarrow> string \<Rightarrow> nat js" where
  "new_EventSource ctor url =
     (\<lambda>s. case ctor url of
             Some e \<Rightarrow> (Inl e, s)
           | None \<Rightarrow> (Inr (length (sources s)),
                      s\<lparr>sources := sources s @ [\<lparr>es_url = url, es_closed = False\<rparr>]\<rparr>))"

text \<open>\<open>eventSource.close()\<close>: closing a closed object changes nothing.\<close>

definition es_close :: "nat \<Rightarrow> unit js" where
  "es_close h =
     (\<lambda>s. (Inr (),
            if h < length (sources s)
            then s\<lparr>sources := (sources s)[h := (sources s ! h)\<lparr>es_closed := True\<rparr>]\<rparr>
            else s))"

section \<open>The service object \<open>notificationService\<close>\<close>

text \<open>
  The three REST wrappers await one call of the shared HTTP client and return
  \<open>response.data\<close>. The backend is a collaborator: each wrapper takes the outcome of its
  call, \<open>Inl e\<close> for a failed request and \<open>Inr data\<close> for the body of a successful one
  (already unwrapped from the \<open>{ status, msg, data }\<close> envelope).

  The client's response interceptor runs before the wrapper sees a failure: at status
  401 it removes \<open>token\<close> (and \<open>user\<close>) from \<open>localStorage\<close> and sends the browser to
  \<open>/login\<close>, then rejects with the same error. The navigation is not modelled.
\<close>

definition after_rejection :: "error \<Rightarrow> provider \<Rightarrow> provider" where
  "after_rejection e s = (if e = HttpError 401 then s\<lparr>token := None\<rparr> else s)"

definition api_request :: "error + 'a \<Rightarrow> provider \<Rightarrow> (error + 'a) \<times> provider" where
  "api_request outcome =
     (case outcome of
        Inl e \<Rightarrow> (\<lambda>s. (Inl e, after_rejection e s))
      | Inr v \<Rightarrow> js_return v)"

text \<open>
  The body of \<open>GET /notifications\<close> is, by the comment in \<open>loadNotifications\<close>, the
  paginated object \<open>{ content: [...], totalElements, ... }\<close>; the code also accepts a
  bare array and a missing body.
\<close>

datatype snapshot_data =
    Paginated "notification list"
  | Bare "notification list"
  | Nullish

definition getNotifications :: "(nat \<Rightarrow> nat \<Rightarrow> error + snapshot_data) \<Rightarrow> nat \<Rightarrow> nat \<Rightarrow> snapshot_data js" where
  "getNotifications api_get page page_size = api_request (api_get page page_size)"

definition service_markAsRead :: "(int \<Rightarrow> error + unit) \<Rightarrow> int \<Rightarrow> unit js" where
  "service_markAsRead api_put notifId = api_request (api_put notifId)"

definition service_markAllAsRead :: "error + unit \<Rightarrow> unit js" where
  "service_markAllAsRead api_put_all = api_request api_put_all"

text \<open>
  \<open>subscribeToStream(onMessage, onError)\<close> reads the token again, builds the URL with
  the token in the query (a \<open>null\<close> token is interpolated as the text \<open>null\<close>), constructs
  the \<open>EventSource\<close> and returns it. The two handlers it installs on the object are
  \<open>es_onmessage\<close> and \<open>es_onerror\<close> below; the browser calls them later.
\<close>

definition stream_url :: "string option \<Rightarrow> string" where
  "stream_url tok =
     ''/api/v1/notifications/stream?token='' @ (case tok of None \<Rightarrow> ''null'' | Some t \<Rightarrow> t)"

definition subscribeToStream :: "(string \<Rightarrow> error option) \<Rightarrow> nat js" where
  "subscribeToStream ctor =
     js_bind getItem_token (\<lambda>tok. new_EventSource ctor (stream_url tok))"

text \<open>
  \<open>JSON.parse(event.data)\<close>: the parser is the JavaScript engine's; \<open>parse\<close> gives the
  parsed value, or \<open>None\<close> where \<open>JSON.parse\<close> throws a \<open>SyntaxError\<close>.
\<close>

definition JSON_parse :: "(string \<Rightarrow> 'j option) \<Rightarrow> string \<Rightarrow> provider \<Rightarrow> (error + 'j) \<times> provider" where
  "JSON_parse parse text = (case parse text of None \<Rightarrow> js_throw SyntaxError | Some v \<Rightarrow> js_return v)"

text \<open>
  \<open>eventSource.onmessage\<close>: the parse and the call of \<open>onMessage\<close> are both inside the
  \<open>try\<close>, so an exception of the callback is caught and logged like a parse error.
\<close>

definition es_onmessage :: "(string \<Rightarrow> 'j option) \<Rightarrow> ('j \<Rightarrow> unit js) \<Rightarrow> string \<Rightarrow> unit js" where
  "es_onmessage parse onMessage event_data =
     try_catch
       (js_bind (JSON_parse parse event_data) (\<lambda>notification. onMessage notification))
       (\<lambda>err. console_error ''Failed to parse SSE notification:'' err)"

text \<open>\<open>eventSource.onerror\<close>: \<open>onError\<close> is optional (\<open>if (onError) onError(err)\<close>).\<close>

definition es_onerror :: "(error \<Rightarrow> unit js) option \<Rightarrow> error \<Rightarrow> unit js" where
  "es_onerror onError err =
     js_seq (console_error ''SSE connection error:'' err)
       (case onError of None \<Rightarrow> js_return () | Some f \<Rightarrow> f err)"

section \<open>The component \<open>NotificationProvider\<close>\<close>

text \<open>
  Each \<open>async\<close> function of the provider awaits one backend call. It is modelled from
  its call to its completion, with the outcome of that call as a parameter. What it
  writes after the \<open>await\<close> goes through the setters, which \<open>markAsRead\<close>,
  \<open>markAllAsRead\<close> and the message callback call with updaters of the current value.
\<close>

definition is_unread :: "notification \<Rightarrow> bool" where
  "is_unread n = (status n = ''UNREAD'')"

text \<open>\<open>data?.content || data || []\<close>: an array is truthy even when it is empty.\<close>

definition notifList :: "snapshot_data \<Rightarrow> notification list" where
  "notifList data = (case data of Paginated content \<Rightarrow> content | Bare arr \<Rightarrow> arr | Nullish \<Rightarrow> [])"

definition loadNotifications :: "(nat \<Rightarrow> nat \<Rightarrow> error + snapshot_data) \<Rightarrow> unit js" where
  "loadNotifications api_get =
     try_catch_finally
       (js_seq (setLoading True)
         (js_bind (getNotifications api_get 0 50) (\<lambda>data.
            js_seq (setNotifications (\<lambda>_. notifList data))
                   (setUnreadCount (\<lambda>_. int (length (filter is_unread (notifList data))))))))
       (\<lambda>err. console_error ''Failed to load notifications:'' err)
       (setLoading False)"

definition stopSSEStream :: "unit js" where
  "stopSSEStream =
     (\<lambda>s. case eventSourceRef s of
             None \<Rightarrow> (Inr (), s)
           | Some h \<Rightarrow> js_seq (es_close h) (set_eventSourceRef None) s)"

text \<open>The two callbacks \<open>startSSEStream\<close> passes to \<open>subscribeToStream\<close>.\<close>

definition onNewNotification :: "notification \<Rightarrow> unit js" where
  "onNewNotification newNotification =
     js_seq (setNotifications (\<lambda>prev. newNotification # prev))
       (js_seq (setUnreadCount (\<lambda>prev. prev + 1))
          (if priority newNotification = ''HIGH'' \<or> actionRequired newNotification
           then show_toast (ToastIcon (message newNotification))
           else js_return ()))"

definition onStreamError :: "error \<Rightarrow> unit js" where
  "onStreamError err = console_warn ''SSE error, will retry...'' err"

definition startSSEStream :: "(string \<Rightarrow> error option) \<Rightarrow> unit js" where
  "startSSEStream ctor =
     js_seq stopSSEStream
       (js_bind getItem_token (\<lambda>tok.
          if \<not> truthy tok then js_return ()
          else try_catch
                 (js_bind (subscribeToStream ctor) (\<lambda>h. set_eventSourceRef (Some h)))
                 (\<lambda>err. console_error ''Failed to start SSE stream:'' err)))"

text \<open>
  What the browser does with a message or an error of the stream \<open>h\<close>: it calls the
  handler installed by \<open>subscribeToStream\<close>, unless the object is closed.
\<close>

definition stream_message :: "(string \<Rightarrow> notification option) \<Rightarrow> nat \<Rightarrow> string \<Rightarrow> unit js" where
  "stream_message parse h event_data =
     (\<lambda>s. if h < length (sources s) \<and> \<not> es_closed (sources s ! h)
           then es_onmessage parse onNewNotification event_data s
           else (Inr (), s))"

definition stream_error :: "nat \<Rightarrow> error \<Rightarrow> unit js" where
  "stream_error h err =
     (\<lambda>s. if h < length (sources s) \<and> \<not> es_closed (sources s ! h)
           then es_onerror (Some onStreamError) err s
           else (Inr (), s))"

definition markAsRead :: "(int \<Rightarrow> error + unit) \<Rightarrow> int \<Rightarrow> unit js" where
  "markAsRead api_put notifId =
     try_catch
       (js_seq (service_markAsRead api_put notifId)
         (js_seq (setNotifications (\<lambda>prev.
                    map (\<lambda>n. if notificationId n = notifId then n\<lparr>status := ''READ''\<rparr> else n) prev))
                 (setUnreadCount (\<lambda>prev. max 0 (prev - 1)))))
       (\<lambda>err. show_toast (ToastError ''Failed to mark notification as read''))"

definition markAllAsRead :: "error + unit \<Rightarrow> unit js" where
  "markAllAsRead api_put_all =
     try_catch
       (js_seq (service_markAllAsRead api_put_all)
         (js_seq (setNotifications (\<lambda>prev. map (\<lambda>n. n\<lparr>status := ''READ''\<rparr>) prev))
           (js_seq (setUnreadCount (\<lambda>_. 0))
                   (show_toast (ToastSuccess ''All notifications marked as read'')))))
       (\<lambda>err. show_toast (ToastError ''Failed to mark all as read''))"

section \<open>Runs of operations\<close>

text \<open>
  The Store of the specification is the pair of the fields \<open>notifications\<close> and
  \<open>unreadCount\<close>. Its operations are parts of the provider's functions: \<open>ingest\<close> is the
  message callback \<open>onNewNotification\<close>, \<open>markRead\<close> and \<open>markAllRead\<close> are what
  \<open>markAsRead\<close> and \<open>markAllAsRead\<close> do once the backend has confirmed.
\<close>

datatype store_op = Ingest notification | MarkRead int | MarkAllRead

fun apply_op :: "store_op \<Rightarrow> provider \<Rightarrow> provider" where
  "apply_op (Ingest n) s = snd (onNewNotification n s)"
| "apply_op (MarkRead notifId) s = snd (markAsRead (\<lambda>_. Inr ()) notifId s)"
| "apply_op MarkAllRead s = snd (markAllAsRead (Inr ()) s)"

text \<open>The state after each operation of a run, in order.\<close>

fun states_after :: "store_op list \<Rightarrow> provider \<Rightarrow> provider list" where
  "states_after [] s = []"
| "states_after (opn # ops) s = apply_op opn s # states_after ops (apply_op opn s)"

definition unread_records :: "provider \<Rightarrow> nat" where
  "unread_records s = length (filter is_unread (notifications s))"

definition consistent :: "provider \<Rightarrow> bool" where
  "consistent s = (unreadCount s = int (unread_records s))"

definition unread_with_id :: "int \<Rightarrow> notification \<Rightarrow> bool" where
  "unread_with_id notifId n = (notificationId n = notifId \<and> is_unread n)"

text \<open>
  The operations under which the counter stays exact: a streamed record arrives
  \<open>UNREAD\<close>, and \<open>markRead\<close> names an identifier that exactly one \<open>UNREAD\<close> record carries.
\<close>

fun admissible :: "store_op \<Rightarrow> provider \<Rightarrow> bool" where
  "admissible (Ingest n) s = is_unread n"
| "admissible (MarkRead notifId) s =
     (length (filter (unread_with_id notifId) (notifications s)) = 1)"
| "admissible MarkAllRead s = True"

fun admissible_run :: "store_op list \<Rightarrow> provider \<Rightarrow> bool" where
  "admissible_run [] s = True"
| "admissible_run (opn # ops) s = (admissible opn s \<and> admissible_run ops (apply_op opn s))"

text \<open>
  The stream's life: \<open>startSSEStream\<close> and \<open>stopSSEStream\<close> as the effect on the user
  calls them, and the token written to or removed from \<open>localStorage\<close> by login and
  logout in between. Each start carries the browser's answer to its \<open>new EventSource\<close>.
\<close>

datatype stream_op = StartSSE "string \<Rightarrow> error option" | StopSSE | SetToken "string option"

fun apply_stream_op :: "stream_op \<Rightarrow> provider \<Rightarrow> provider" where
  "apply_stream_op (StartSSE ctor) s = snd (startSSEStream ctor s)"
| "apply_stream_op StopSSE s = snd (stopSSEStream s)"
| "apply_stream_op (SetToken tok) s = s\<lparr>token := tok\<rparr>"

definition run_stream :: "stream_op list \<Rightarrow> provider \<Rightarrow> provider" where
  "run_stream ops s = fold apply_stream_op ops s"

text \<open>The handles of the \<open>EventSource\<close> objects that are not closed.\<close>

definition open_idx :: "event_source list \<Rightarrow> nat list" where
  "open_idx xs = filter (\<lambda>h. \<not> es_closed (xs ! h)) [0..<length xs]"

definition open_handles :: "provider \<Rightarrow> nat list" where
  "open_handles s = open_idx (sources s)"

text \<open>Every open object is the one \<open>eventSourceRef.current\<close> holds.\<close>

definition tracked :: "provider \<Rightarrow> bool" where
  "tracked s = (open_handles s = (case eventSourceRef s of None \<Rightarrow> [] | Some h \<Rightarrow> [h]))"

subsection \<open>Example data\<close>

definition example_notification :: "int \<Rightarrow> string \<Rightarrow> notification" where
  "example_notification i st =
     \<lparr>notificationId = i, ntype = ''GOAL_APPROVAL'', status = st, message = ''Goal approved'',
      createdDate = ''2024-01-01T00:00:00'', priority = ''NORMAL'', actionRequired = False\<rparr>"

definition example_provider :: provider where
  "example_provider =
     \<lparr>notifications = [example_notification 1 ''UNREAD'', example_notification 2 ''UNREAD''],
      unreadCount = 2, loading = False, eventSourceRef = None,
      token = Some ''jwt'', sources = [], console = [], toasts = []\<rparr>"

definition example_page :: "notification list" where
  "example_page = [example_notification 7 ''UNREAD'', example_notification 8 ''READ'',
                   example_notification 9 ''UNREAD'']"

text \<open>
  The values \<open>JSON.parse\<close> returns. Numbers are integers here; the payloads below use no
  others. A structured record is an object.
\<close>

datatype json =
    JNull
  | JBool bool
  | JNumber int
  | JString string
  | JArray "json list"
  | JObject "(string \<times> json) list"

definition is_object :: "json \<Rightarrow> bool" where
  "is_object v = (case v of JObject props \<Rightarrow> True | _ \<Rightarrow> False)"

text \<open>
  \<open>JSON.parse\<close> on the four payloads used below: the texts \<open>42\<close>, \<open>null\<close> and
  \<open>{"notificationId":3}\<close> parse to the number, to \<open>null\<close> and to an object with that one
  property; the text \<open>not json\<close> is a \<open>SyntaxError\<close>. No other text is given to it.
\<close>

definition example_JSON_parse :: "string \<Rightarrow> json option" where
  "example_JSON_parse payload =
     (if payload = ''42'' then Some (JNumber 42)
      else if payload = ''null'' then Some JNull
      else if payload = ''{\"notificationId\":3}''
        then Some (JObject [(''notificationId'', JNumber 3)])
      else None)"

text \<open>
  A consumer of the raw parsed value. Like the provider's message callback it counts
  the delivery first (\<open>setUnreadCount(prev => prev + 1)\<close>) and then reads a property of the
  value (\<open>newNotification.priority\<close>): that read throws a \<open>TypeError\<close> when the value is
  \<open>null\<close> and gives \<open>undefined\<close> for a number or an object without the property, so no
  toast follows. The callback's write to the collection is left out: the collection of
  this model holds records only.
\<close>

definition counting_consumer :: "json \<Rightarrow> unit js" where
  "counting_consumer v =
     js_seq (setUnreadCount (\<lambda>prev. prev + 1))
       (case v of JNull \<Rightarrow> js_throw TypeError | _ \<Rightarrow> js_return ())"

text \<open>A provider that holds an open stream while the token is gone from storage.\<close>

definition example_streaming :: "string option \<Rightarrow> provider" where
  "example_streaming tok =
     \<lparr>notifications = [example_notification 1 ''UNREAD''], unreadCount = 1, loading = False,
      eventSourceRef = Some 0, token = tok,
      sources = [\<lparr>es_url = ''/api/v1/notifications/stream?token=jwt'', es_closed = False\<rparr>],
      console = [], toasts = []\<rparr>"

section \<open>What each function computes\<close>

lemmas js_defs = js_return_def js_throw_def js_bind_def js_seq_def try_catch_def
  try_catch_finally_def api_request_def setNotifications_def setUnreadCount_def setLoading_def
  set_eventSourceRef_def console_error_def console_warn_def show_toast_def getItem_token_def

lemma after_rejection_fields:
  "notifications (after_rejection e s) = notifications s"
  "unreadCount (after_rejection e s) = unreadCount s"
  "toasts (after_rejection e s) = toasts s"
  "console (after_rejection e s) = console s"
  "loading (after_rejection e s) = loading s"
  "eventSourceRef (after_rejection e s) = eventSourceRef s"
  "sources (after_rejection e s) = sources s"
  by (simp_all add: after_rejection_def)

lemma onNewNotification_eq:
  "onNewNotification n s =
     (Inr (), s\<lparr>notifications := n # notifications s, unreadCount := unreadCount s + 1,
               toasts := (if priority n = ''HIGH'' \<or> actionRequired n
                          then toasts s @ [ToastIcon (message n)] else toasts s)\<rparr>)"
  by (simp add: onNewNotification_def js_defs)

lemma markAsRead_success_eq:
  "api_put notifId = Inr () \<Longrightarrow>
   markAsRead api_put notifId s =
     (Inr (), s\<lparr>notifications :=
                   map (\<lambda>n. if notificationId n = notifId then n\<lparr>status := ''READ''\<rparr> else n)
                     (notifications s),
               unreadCount := max 0 (unreadCount s - 1)\<rparr>)"
  by (simp add: markAsRead_def service_markAsRead_def js_defs)

lemma markAsRead_failure_eq:
  "api_put notifId = Inl e \<Longrightarrow>
   markAsRead api_put notifId s =
     (Inr (), (after_rejection e s)
        \<lparr>toasts := toasts s @ [ToastError ''Failed to mark notification as read'']\<rparr>)"
  by (simp add: markAsRead_def service_markAsRead_def js_defs after_rejection_fields)

lemma markAllAsRead_success_eq:
  "markAllAsRead (Inr ()) s =
     (Inr (), s\<lparr>notifications := map (\<lambda>n. n\<lparr>status := ''READ''\<rparr>) (notifications s),
               unreadCount := 0,
               toasts := toasts s @ [ToastSuccess ''All notifications marked as read'']\<rparr>)"
  by (simp add: markAllAsRead_def service_markAllAsRead_def js_defs)

lemma loadNotifications_success_eq:
  "api_get 0 50 = Inr data \<Longrightarrow>
   loadNotifications api_get s =
     (Inr (), s\<lparr>notifications := notifList data,
               unreadCount := int (length (filter is_unread (notifList data))),
               loading := False\<rparr>)"
  by (simp add: loadNotifications_def getNotifications_def js_defs)

lemma loadNotifications_failure_eq:
  "api_get 0 50 = Inl e \<Longrightarrow>
   loadNotifications api_get s =
     (Inr (), (after_rejection e s)
        \<lparr>loading := False,
         console := console s @ [ConsoleError ''Failed to load notifications:'' e]\<rparr>)"
  by (simp add: loadNotifications_def getNotifications_def js_defs after_rejection_def)

lemma stopSSEStream_eq:
  "stopSSEStream s =
     (Inr (), case eventSourceRef s of None \<Rightarrow> s
              | Some h \<Rightarrow> (if h < length (sources s)
                  then s\<lparr>sources := (sources s)[h := (sources s ! h)\<lparr>es_closed := True\<rparr>]\<rparr>
                  else s)\<lparr>eventSourceRef := None\<rparr>)"
  by (simp add: stopSSEStream_def es_close_def js_defs split: option.splits)

lemma startSSEStream_eq:
  "startSSEStream ctor s =
     (let s1 = snd (stopSSEStream s) in
      if \<not> truthy (token s1) then (Inr (), s1)
      else case ctor (stream_url (token s1)) of
             Some e \<Rightarrow>
               (Inr (), s1\<lparr>console := console s1 @ [ConsoleError ''Failed to start SSE stream:'' e]\<rparr>)
           | None \<Rightarrow>
               (Inr (), s1\<lparr>sources := sources s1 @ [\<lparr>es_url = stream_url (token s1), es_closed = False\<rparr>],
                           eventSourceRef := Some (length (sources s1))\<rparr>))"
  by (simp add: startSSEStream_def subscribeToStream_def new_EventSource_def stopSSEStream_eq
      js_defs Let_def split: option.splits)

section \<open>The unread counter\<close>

lemma unread_after_mark:
  "length (filter is_unread
      (map (\<lambda>n. if notificationId n = notifId then n\<lparr>status := ''READ''\<rparr> else n) xs))
   + length (filter (unread_with_id notifId) xs) = length (filter is_unread xs)"
  by (induction xs) (auto simp: is_unread_def unread_with_id_def)

lemma unread_after_mark_all:
  "filter is_unread (map (\<lambda>n. n\<lparr>status := ''READ''\<rparr>) xs) = []"
  by (induction xs) (auto simp: is_unread_def)

lemma apply_op_consistent:
  assumes "consistent s" and "admissible opn s"
  shows "consistent (apply_op opn s)"
proof (cases opn)
  case (Ingest n)
  with assms show ?thesis
    by (simp add: onNewNotification_eq consistent_def unread_records_def)
next
  case (MarkRead notifId)
  with assms have one: "length (filter (unread_with_id notifId) (notifications s)) = 1"
    by simp
  from unread_after_mark [of notifId "notifications s"] one
  have "length (filter is_unread
      (map (\<lambda>n. if notificationId n = notifId then n\<lparr>status := ''READ''\<rparr> else n)
         (notifications s))) + 1 = unread_records s"
    by (simp add: unread_records_def)
  with assms(1) MarkRead show ?thesis
    by (simp add: markAsRead_success_eq consistent_def unread_records_def)
next
  case MarkAllRead
  then show ?thesis
    by (simp add: markAllAsRead_success_eq consistent_def unread_records_def unread_after_mark_all)
qed

lemma states_after_consistent:
  "consistent s \<Longrightarrow> admissible_run ops s \<Longrightarrow> list_all consistent (states_after ops s)"
proof (induction ops arbitrary: s)
  case Nil
  then show ?case by simp
next
  case (Cons opn ops)
  then show ?case by (simp add: apply_op_consistent)
qed

text \<open>
  Claim C1, as amended. Start from the empty Store and run any sequence of \<open>ingest\<close>,
  \<open>markRead\<close> and \<open>markAllRead\<close> in which every ingested record has status \<open>UNREAD\<close> and
  every \<open>markRead(id)\<close> is issued when exactly one \<open>UNREAD\<close> record of the collection has
  the identifier \<open>id\<close>. Then after each operation \<open>unreadCount\<close> equals the number of
  records of the collection whose status is \<open>UNREAD\<close>.
\<close>

theorem unread_counter_invariant:
  "admissible_run ops (initial_provider tok) \<Longrightarrow>
   list_all consistent (states_after ops (initial_provider tok))"
  by (rule states_after_consistent)
     (simp_all add: consistent_def unread_records_def initial_provider_def)

text \<open>
  The run of the specification's scenario: two unread records arrive, the first is
  marked read, then all are.
\<close>

theorem unread_counter_invariant_witness:
  "admissible_run
     [Ingest (example_notification 1 ''UNREAD''), Ingest (example_notification 2 ''UNREAD''),
      MarkRead 1, MarkAllRead] (initial_provider None)
   \<and> list_all consistent
       (states_after
          [Ingest (example_notification 1 ''UNREAD''), Ingest (example_notification 2 ''UNREAD''),
           MarkRead 1, MarkAllRead] (initial_provider None))"
proof -
  have a: "admissible_run
     [Ingest (example_notification 1 ''UNREAD''), Ingest (example_notification 2 ''UNREAD''),
      MarkRead 1, MarkAllRead] (initial_provider None)"
    by (simp add: onNewNotification_eq markAsRead_success_eq is_unread_def unread_with_id_def
        example_notification_def initial_provider_def)
  from a unread_counter_invariant [OF a] show ?thesis by simp
qed

text \<open>
  Claim C1 as stated fails on two runs from the empty Store. A streamed record that is
  already \<open>READ\<close> is counted: the counter is 1 and no record is unread. A record delivered
  twice stands twice in the collection; one \<open>markRead\<close> of its identifier marks both
  copies and takes one off the counter: the counter is 1 and no record is unread.
\<close>

theorem unread_counter_counterexample:
  "\<not> list_all consistent
        (states_after [Ingest (example_notification 1 ''READ'')] (initial_provider None))
   \<and> \<not> list_all consistent
        (states_after
           [Ingest (example_notification 1 ''UNREAD''), Ingest (example_notification 1 ''UNREAD''),
            MarkRead 1] (initial_provider None))"
  by (simp add: onNewNotification_eq markAsRead_success_eq is_unread_def consistent_def
      unread_records_def example_notification_def initial_provider_def)

section \<open>Marking one notification read\<close>

text \<open>
  Claim C2 says that \<open>markRead(id)\<close> changes nothing when \<open>id\<close> matches no record or a
  record that is already \<open>READ\<close>. The code leaves the collection as it is but lowers the
  counter all the same. Two confirmations for notification 1 in a row (the row was
  clicked twice before the first confirmation came back): the second finds the record
  \<open>READ\<close> and still takes one off, so the counter shows 0 while notification 2 is unread.
  An identifier that no record carries: the counter goes from 2 to 1 and both records
  are still unread.
\<close>

theorem markAsRead_without_match_decrements:
  "unreadCount (apply_op (MarkRead 1) (apply_op (MarkRead 1) example_provider)) = 0
   \<and> unread_records (apply_op (MarkRead 1) (apply_op (MarkRead 1) example_provider)) = 1
   \<and> notifications (apply_op (MarkRead 1) (apply_op (MarkRead 1) example_provider))
       = notifications (apply_op (MarkRead 1) example_provider)
   \<and> unreadCount (apply_op (MarkRead 5) example_provider) = 1
   \<and> unread_records (apply_op (MarkRead 5) example_provider) = 2
   \<and> notifications (apply_op (MarkRead 5) example_provider) = notifications example_provider"
  by (simp add: markAsRead_success_eq example_provider_def example_notification_def
      unread_records_def is_unread_def)

text \<open>
  Claim C3. When the backend call of \<open>markAsRead(id)\<close> fails, the collection and the
  unread counter are what they were and the failure is shown as the error toast
  \<open>Failed to mark notification as read\<close>; the collection and the counter change only
  when the call has succeeded, and then no error is shown.
\<close>

theorem markAsRead_failure_store_unchanged:
  "(api_put notifId = Inl e \<longrightarrow>
      notifications (snd (markAsRead api_put notifId s)) = notifications s
    \<and> unreadCount (snd (markAsRead api_put notifId s)) = unreadCount s
    \<and> toasts (snd (markAsRead api_put notifId s))
        = toasts s @ [ToastError ''Failed to mark notification as read''])
   \<and> (api_put notifId = Inr () \<longrightarrow>
      notifications (snd (markAsRead api_put notifId s))
        = map (\<lambda>n. if notificationId n = notifId then n\<lparr>status := ''READ''\<rparr> else n)
            (notifications s)
    \<and> unreadCount (snd (markAsRead api_put notifId s)) = max 0 (unreadCount s - 1)
    \<and> toasts (snd (markAsRead api_put notifId s)) = toasts s)"
  by (simp add: markAsRead_success_eq markAsRead_failure_eq after_rejection_fields)

text \<open>The specification's scenario: \<open>markAsRead(5)\<close> with a backend that answers 500.\<close>

theorem markAsRead_failure_store_unchanged_witness:
  "notifications (snd (markAsRead (\<lambda>_. Inl (HttpError 500)) 5 example_provider))
     = notifications example_provider
   \<and> unreadCount (snd (markAsRead (\<lambda>_. Inl (HttpError 500)) 5 example_provider)) = 2
   \<and> toasts (snd (markAsRead (\<lambda>_. Inl (HttpError 500)) 5 example_provider))
       = [ToastError ''Failed to mark notification as read'']
   \<and> unreadCount (snd (markAsRead (\<lambda>_. Inr ()) 1 example_provider)) = 1"
  using
    markAsRead_failure_store_unchanged
      [of "\<lambda>_. Inl (HttpError 500)" 5 "HttpError 500" example_provider]
    markAsRead_failure_store_unchanged
      [of "\<lambda>_. Inr ()" 1 "HttpError 500" example_provider]
  by (simp add: example_provider_def)

section \<open>Marking all notifications read\<close>

text \<open>
  Claim C4. From every state, \<open>markAllRead\<close> (what \<open>markAllAsRead\<close> does after the
  backend's confirmation) leaves \<open>unreadCount\<close> at 0 and no record with status \<open>UNREAD\<close>:
  the status of every record is \<open>READ\<close>, the records are as many and in the same order,
  and each keeps its other fields.
\<close>

theorem markAllAsRead_clears_unread:
  "unreadCount (snd (markAllAsRead (Inr ()) s)) = 0
   \<and> unread_records (snd (markAllAsRead (Inr ()) s)) = 0
   \<and> map status (notifications (snd (markAllAsRead (Inr ()) s)))
        = replicate (length (notifications s)) ''READ''
   \<and> map notificationId (notifications (snd (markAllAsRead (Inr ()) s)))
        = map notificationId (notifications s)
   \<and> map ntype (notifications (snd (markAllAsRead (Inr ()) s))) = map ntype (notifications s)
   \<and> map message (notifications (snd (markAllAsRead (Inr ()) s))) = map message (notifications s)
   \<and> map createdDate (notifications (snd (markAllAsRead (Inr ()) s)))
        = map createdDate (notifications s)
   \<and> map priority (notifications (snd (markAllAsRead (Inr ()) s))) = map priority (notifications s)
   \<and> map actionRequired (notifications (snd (markAllAsRead (Inr ()) s)))
        = map actionRequired (notifications s)"
  by (simp add: markAllAsRead_success_eq unread_records_def unread_after_mark_all o_def
      map_replicate_const)

section \<open>Loading the snapshot\<close>

text \<open>
  Claim C5. Whatever the state before, when the fetch of page 0 succeeds with the
  records \<open>xs\<close> (as the \<open>content\<close> of the paginated body, or as a bare array), the
  collection is exactly \<open>xs\<close>, with nothing kept of the records held before, and
  \<open>unreadCount\<close> is the number of records of \<open>xs\<close> whose status is \<open>UNREAD\<close>. A missing
  body gives the empty collection and the counter 0.
\<close>

theorem loadNotifications_replaces:
  "(api_get 0 50 = Inr (Paginated xs) \<or> api_get 0 50 = Inr (Bare xs) \<longrightarrow>
      notifications (snd (loadNotifications api_get s)) = xs
    \<and> unreadCount (snd (loadNotifications api_get s))
        = int (length (filter (\<lambda>n. status n = ''UNREAD'') xs))
    \<and> fst (loadNotifications api_get s) = Inr ())
   \<and> (api_get 0 50 = Inr Nullish \<longrightarrow>
      notifications (snd (loadNotifications api_get s)) = []
    \<and> unreadCount (snd (loadNotifications api_get s)) = 0)"
proof -
  have unread: "filter is_unread xs = filter (\<lambda>n. status n = ''UNREAD'') xs"
    by (rule filter_cong) (simp_all add: is_unread_def)
  have page: "api_get 0 50 = Inr (Paginated xs) \<Longrightarrow>
      notifications (snd (loadNotifications api_get s)) = xs
    \<and> unreadCount (snd (loadNotifications api_get s))
        = int (length (filter (\<lambda>n. status n = ''UNREAD'') xs))
    \<and> fst (loadNotifications api_get s) = Inr ()"
    by (simp add: loadNotifications_success_eq notifList_def unread)
  have bare: "api_get 0 50 = Inr (Bare xs) \<Longrightarrow>
      notifications (snd (loadNotifications api_get s)) = xs
    \<and> unreadCount (snd (loadNotifications api_get s))
        = int (length (filter (\<lambda>n. status n = ''UNREAD'') xs))
    \<and> fst (loadNotifications api_get s) = Inr ()"
    by (simp add: loadNotifications_success_eq notifList_def unread)
  have nullish: "api_get 0 50 = Inr Nullish \<Longrightarrow>
      notifications (snd (loadNotifications api_get s)) = []
    \<and> unreadCount (snd (loadNotifications api_get s)) = 0"
    by (simp add: loadNotifications_success_eq notifList_def)
  from page bare nullish show ?thesis by blast
qed

text \<open>
  The specification's scenario: a page of three records, two of them unread, loaded
  over a Store that held two other records; the same records as a bare array; and a
  missing body.
\<close>

theorem loadNotifications_replaces_witness:
  "notifications (snd (loadNotifications (\<lambda>page sz. Inr (Paginated example_page)) example_provider))
     = [example_notification 7 ''UNREAD'', example_notification 8 ''READ'',
        example_notification 9 ''UNREAD'']
   \<and> unreadCount (snd (loadNotifications (\<lambda>page sz. Inr (Paginated example_page)) example_provider))
     = 2
   \<and> unreadCount (snd (loadNotifications (\<lambda>page sz. Inr (Bare example_page)) example_provider))
     = 2
   \<and> notifications (snd (loadNotifications (\<lambda>page sz. Inr Nullish) example_provider)) = []
   \<and> unreadCount (snd (loadNotifications (\<lambda>page sz. Inr Nullish) example_provider)) = 0"
proof -
  have two: "int (length (filter (\<lambda>n. status n = ''UNREAD'') example_page)) = 2"
    by (simp add: example_page_def example_notification_def)
  have p: "(\<lambda>page sz. Inr (Paginated example_page) :: error + snapshot_data) (0::nat) (50::nat)
             = Inr (Paginated example_page)
           \<or> (\<lambda>page sz. Inr (Paginated example_page) :: error + snapshot_data) (0::nat) (50::nat)
             = Inr (Bare example_page)"
    by simp
  have b: "(\<lambda>page sz. Inr (Bare example_page) :: error + snapshot_data) (0::nat) (50::nat)
             = Inr (Paginated example_page)
           \<or> (\<lambda>page sz. Inr (Bare example_page) :: error + snapshot_data) (0::nat) (50::nat)
             = Inr (Bare example_page)"
    by simp
  have n: "(\<lambda>page sz. Inr Nullish :: error + snapshot_data) (0::nat) (50::nat) = Inr Nullish"
    by simp
  from p loadNotifications_replaces
    [where api_get = "\<lambda>page sz. Inr (Paginated example_page)" and xs = example_page
       and s = example_provider]
  have r1: "notifications
        (snd (loadNotifications (\<lambda>page sz. Inr (Paginated example_page)) example_provider))
      = example_page
    \<and> unreadCount
        (snd (loadNotifications (\<lambda>page sz. Inr (Paginated example_page)) example_provider))
      = int (length (filter (\<lambda>n. status n = ''UNREAD'') example_page))"
    by blast
  from b loadNotifications_replaces
    [where api_get = "\<lambda>page sz. Inr (Bare example_page)" and xs = example_page
       and s = example_provider]
  have r2: "unreadCount
        (snd (loadNotifications (\<lambda>page sz. Inr (Bare example_page)) example_provider))
      = int (length (filter (\<lambda>n. status n = ''UNREAD'') example_page))"
    by blast
  from n loadNotifications_replaces
    [where api_get = "\<lambda>page sz. Inr Nullish" and xs = example_page and s = example_provider]
  have r3: "notifications (snd (loadNotifications (\<lambda>page sz. Inr Nullish) example_provider)) = []
    \<and> unreadCount (snd (loadNotifications (\<lambda>page sz. Inr Nullish) example_provider)) = 0"
    by blast
  from r1 r2 r3 two show ?thesis by (simp add: example_page_def)
qed

text \<open>
  Claim C7, as amended. When the snapshot fetch fails, the collection and the unread
  counter are exactly what they were before the fetch, and the error is written to the
  console with the text \<open>Failed to load notifications:\<close>; \<open>loadNotifications\<close> itself
  completes normally and shows no toast.
\<close>

theorem loadNotifications_failure_logged:
  "api_get 0 50 = Inl e \<Longrightarrow>
     notifications (snd (loadNotifications api_get s)) = notifications s
   \<and> unreadCount (snd (loadNotifications api_get s)) = unreadCount s
   \<and> fst (loadNotifications api_get s) = Inr ()
   \<and> toasts (snd (loadNotifications api_get s)) = toasts s
   \<and> console (snd (loadNotifications api_get s))
       = console s @ [ConsoleError ''Failed to load notifications:'' e]"
  by (simp add: loadNotifications_failure_eq after_rejection_fields)

theorem loadNotifications_failure_logged_witness:
  "notifications (snd (loadNotifications (\<lambda>page sz. Inl NetworkError) example_provider))
     = notifications example_provider
   \<and> unreadCount (snd (loadNotifications (\<lambda>page sz. Inl NetworkError) example_provider)) = 2
   \<and> console (snd (loadNotifications (\<lambda>page sz. Inl NetworkError) example_provider))
       = [ConsoleError ''Failed to load notifications:'' NetworkError]"
proof -
  have h: "(\<lambda>page sz. Inl NetworkError :: error + snapshot_data) (0::nat) (50::nat)
           = Inl NetworkError"
    by simp
  from loadNotifications_failure_logged [OF h, of example_provider] show ?thesis
    by (simp add: example_provider_def)
qed

text \<open>
  Claim C7 as stated has the error surfaced to the caller. With the network down,
  \<open>loadNotifications\<close> returns to its caller without an exception and no toast is shown:
  the only trace of the failure is the console line.
\<close>

theorem loadNotifications_failure_not_surfaced:
  "fst (loadNotifications (\<lambda>page sz. Inl NetworkError) example_provider) = Inr ()
   \<and> toasts (snd (loadNotifications (\<lambda>page sz. Inl NetworkError) example_provider)) = []
   \<and> console (snd (loadNotifications (\<lambda>page sz. Inl NetworkError) example_provider))
       = [ConsoleError ''Failed to load notifications:'' NetworkError]"
  by (simp add: loadNotifications_failure_eq after_rejection_def example_provider_def)

section \<open>The stream\<close>

text \<open>
  Claim C6. For every state and every streamed record, \<open>ingest\<close> (the message callback)
  puts the record at the head of the collection with the records held before behind it
  in their order, and adds one to the unread counter, whatever the record's status and
  whether or not its identifier is already in the collection.
\<close>

theorem ingest_prepends:
  "fst (onNewNotification n s) = Inr ()
   \<and> notifications (snd (onNewNotification n s)) = n # notifications s
   \<and> unreadCount (snd (onNewNotification n s)) = unreadCount s + 1"
  by (simp add: onNewNotification_eq)

text \<open>
  Claim C8, as amended. The message handler never lets an exception escape. A payload
  that \<open>JSON.parse\<close> rejects is logged and dropped: whatever the callback, the state
  changes by the console line only, so the callback was not called. Every payload that
  \<open>JSON.parse\<close> accepts, a structured record or any other value, is handed to the
  callback once: the handler is that one call, with an exception of the callback
  caught and logged, and is exactly that call when the callback does not throw.
\<close>

theorem es_onmessage_drops_malformed:
  "fst (es_onmessage parse onMessage event_data s) = Inr ()
   \<and> (parse event_data = None \<longrightarrow>
        snd (es_onmessage parse onMessage event_data s)
          = s\<lparr>console := console s @ [ConsoleError ''Failed to parse SSE notification:'' SyntaxError]\<rparr>)
   \<and> (parse event_data = Some v \<longrightarrow>
        es_onmessage parse onMessage event_data s
          = try_catch (onMessage v)
              (\<lambda>err. console_error ''Failed to parse SSE notification:'' err) s)
   \<and> (parse event_data = Some v \<and> fst (onMessage v s) = Inr () \<longrightarrow>
        es_onmessage parse onMessage event_data s = onMessage v s)"
  by (auto simp: es_onmessage_def JSON_parse_def js_defs split: option.splits sum.splits prod.splits)

text \<open>
  A text that is no JSON is dropped and the counter stays at 2; the object is delivered
  and counted.
\<close>

theorem es_onmessage_drops_malformed_witness:
  "snd (es_onmessage example_JSON_parse counting_consumer ''not json'' example_provider)
     = example_provider\<lparr>console := [ConsoleError ''Failed to parse SSE notification:'' SyntaxError]\<rparr>
   \<and> es_onmessage example_JSON_parse counting_consumer ''{\"notificationId\":3}'' example_provider
     = counting_consumer (JObject [(''notificationId'', JNumber 3)]) example_provider
   \<and> unreadCount
       (snd (es_onmessage example_JSON_parse counting_consumer ''{\"notificationId\":3}''
              example_provider)) = 3"
proof -
  have a: "example_JSON_parse ''not json'' = None" by (simp add: example_JSON_parse_def)
  have b: "example_JSON_parse ''{\"notificationId\":3}''
           = Some (JObject [(''notificationId'', JNumber 3)])"
    by (simp add: example_JSON_parse_def)
  have c: "fst (counting_consumer (JObject [(''notificationId'', JNumber 3)]) example_provider)
           = Inr ()"
    by (simp add: counting_consumer_def js_defs)
  from a es_onmessage_drops_malformed
    [of example_JSON_parse counting_consumer "''not json''" example_provider]
  have d: "snd (es_onmessage example_JSON_parse counting_consumer ''not json'' example_provider)
     = example_provider\<lparr>console := console example_provider
         @ [ConsoleError ''Failed to parse SSE notification:'' SyntaxError]\<rparr>"
    by blast
  from b c es_onmessage_drops_malformed
    [of example_JSON_parse counting_consumer "''{\"notificationId\":3}''" example_provider
       "JObject [(''notificationId'', JNumber 3)]"]
  have e: "es_onmessage example_JSON_parse counting_consumer ''{\"notificationId\":3}''
             example_provider
           = counting_consumer (JObject [(''notificationId'', JNumber 3)]) example_provider"
    by blast
  have f: "unreadCount
      (snd (counting_consumer (JObject [(''notificationId'', JNumber 3)]) example_provider)) = 3"
    by (simp add: counting_consumer_def js_defs example_provider_def)
  have g: "example_provider\<lparr>console := console example_provider
         @ [ConsoleError ''Failed to parse SSE notification:'' SyntaxError]\<rparr>
       = example_provider\<lparr>console := [ConsoleError ''Failed to parse SSE notification:'' SyntaxError]\<rparr>"
    by (simp add: example_provider_def)
  from d e f g show ?thesis by simp
qed

text \<open>
  Claim C8 as stated has every payload that is not a parseable structured record
  dropped. The payload \<open>42\<close> parses to a number, which is no record, and the handler
  hands it to the callback: the delivery is counted (the counter goes from 2 to 3) and
  nothing is logged. The payload \<open>null\<close> is delivered too: the callback has counted it
  when its read of a property throws, and the handler logs that \<open>TypeError\<close> as a
  parse failure.
\<close>

theorem es_onmessage_delivers_non_record:
  "example_JSON_parse ''42'' = Some (JNumber 42)
   \<and> \<not> is_object (JNumber 42)
   \<and> es_onmessage example_JSON_parse counting_consumer ''42'' example_provider
       = counting_consumer (JNumber 42) example_provider
   \<and> unreadCount (snd (es_onmessage example_JSON_parse counting_consumer ''42'' example_provider)) = 3
   \<and> console (snd (es_onmessage example_JSON_parse counting_consumer ''42'' example_provider)) = []
   \<and> example_JSON_parse ''null'' = Some JNull
   \<and> \<not> is_object JNull
   \<and> unreadCount (snd (es_onmessage example_JSON_parse counting_consumer ''null'' example_provider)) = 3
   \<and> console (snd (es_onmessage example_JSON_parse counting_consumer ''null'' example_provider))
       = [ConsoleError ''Failed to parse SSE notification:'' TypeError]"
  by (simp add: es_onmessage_def JSON_parse_def example_JSON_parse_def counting_consumer_def
      is_object_def js_defs example_provider_def)

subsection \<open>One stream at a time\<close>

lemma open_idx_snoc:
  "open_idx (xs @ [x]) = open_idx xs @ (if es_closed x then [] else [length xs])"
proof -
  have "filter (\<lambda>h. \<not> es_closed ((xs @ [x]) ! h)) [0..<length xs]
        = filter (\<lambda>h. \<not> es_closed (xs ! h)) [0..<length xs]"
    by (rule filter_cong) (simp_all add: nth_append)
  then show ?thesis by (simp add: open_idx_def)
qed

lemma open_idx_close:
  assumes "open_idx xs = [h]"
  shows "open_idx (xs[h := (xs ! h)\<lparr>es_closed := True\<rparr>]) = []"
proof -
  have mem: "\<And>i. i < length xs \<Longrightarrow> \<not> es_closed (xs ! i) \<Longrightarrow> i = h"
  proof -
    fix i assume "i < length xs" "\<not> es_closed (xs ! i)"
    then have "i \<in> set (open_idx xs)" by (simp add: open_idx_def)
    with assms show "i = h" by simp
  qed
  show ?thesis
    unfolding open_idx_def filter_empty_conv
  proof
    fix i assume "i \<in> set [0..<length (xs[h := (xs ! h)\<lparr>es_closed := True\<rparr>])]"
    then have i: "i < length xs" by simp
    show "\<not> \<not> es_closed (xs[h := (xs ! h)\<lparr>es_closed := True\<rparr>] ! i)"
    proof (cases "i = h")
      case True
      with i show ?thesis by simp
    next
      case False
      with mem [OF i] show ?thesis by auto
    qed
  qed
qed

lemma open_idx_bound: "h \<in> set (open_idx xs) \<Longrightarrow> h < length xs"
  by (simp add: open_idx_def)

lemma stop_tracked:
  assumes "tracked s"
  shows "open_handles (snd (stopSSEStream s)) = []
         \<and> eventSourceRef (snd (stopSSEStream s)) = None
         \<and> token (snd (stopSSEStream s)) = token s"
proof (cases "eventSourceRef s")
  case None
  with assms show ?thesis by (simp add: stopSSEStream_eq tracked_def)
next
  case (Some h)
  with assms have o: "open_idx (sources s) = [h]" by (simp add: tracked_def open_handles_def)
  then have "h \<in> set (open_idx (sources s))" by simp
  then have "h < length (sources s)" by (rule open_idx_bound)
  with Some open_idx_close [OF o] show ?thesis
    by (simp add: stopSSEStream_eq open_handles_def)
qed

lemma start_tracked:
  assumes "tracked s"
  shows "tracked (snd (startSSEStream ctor s))"
proof -
  from stop_tracked [OF assms] show ?thesis
    by (simp add: startSSEStream_eq Let_def tracked_def open_handles_def open_idx_snoc
        split: option.splits)
qed

lemma apply_stream_op_tracked: "tracked s \<Longrightarrow> tracked (apply_stream_op opn s)"
proof (cases opn)
  case (StartSSE ctor)
  assume "tracked s"
  with StartSSE show ?thesis by (simp add: start_tracked)
next
  case StopSSE
  assume "tracked s"
  from stop_tracked [OF this] StopSSE show ?thesis by (simp add: tracked_def)
next
  case (SetToken tok)
  assume "tracked s"
  with SetToken show ?thesis by (simp add: tracked_def open_handles_def)
qed

lemma run_stream_tracked: "tracked s \<Longrightarrow> tracked (run_stream ops s)"
  unfolding run_stream_def
  by (induction ops arbitrary: s) (simp_all add: apply_stream_op_tracked)

lemma tracked_initial: "tracked (initial_provider tok)"
  by (simp add: tracked_def open_handles_def open_idx_def initial_provider_def)

text \<open>
  Claim C9. After any sequence of starts and stops from the initial state (with the
  token changing in between as it may), at most one \<open>EventSource\<close> is open, and an open
  one is the one the provider holds. Every start closes the object held before it
  does anything else: that object is closed afterwards and the stored handle is no
  longer it.
\<close>

theorem at_most_one_open_stream:
  "length (open_handles (run_stream ops (initial_provider tok))) \<le> 1
   \<and> set (open_handles (run_stream ops (initial_provider tok)))
       \<subseteq> set_option (eventSourceRef (run_stream ops (initial_provider tok)))
   \<and> (eventSourceRef s = Some h \<and> h < length (sources s) \<longrightarrow>
        es_closed (sources (snd (startSSEStream ctor s)) ! h)
        \<and> eventSourceRef (snd (startSSEStream ctor s)) \<noteq> Some h)"
proof -
  have t: "tracked (run_stream ops (initial_provider tok))"
    by (rule run_stream_tracked) (rule tracked_initial)
  then have a: "length (open_handles (run_stream ops (initial_provider tok))) \<le> 1"
    by (simp add: tracked_def split: option.splits)
  from t have b: "set (open_handles (run_stream ops (initial_provider tok)))
       \<subseteq> set_option (eventSourceRef (run_stream ops (initial_provider tok)))"
    by (simp add: tracked_def split: option.splits)
  have c: "eventSourceRef s = Some h \<and> h < length (sources s) \<longrightarrow>
        es_closed (sources (snd (startSSEStream ctor s)) ! h)
        \<and> eventSourceRef (snd (startSSEStream ctor s)) \<noteq> Some h"
    by (auto simp: startSSEStream_eq stopSSEStream_eq Let_def nth_append split: option.splits)
  from a b c show ?thesis by blast
qed

theorem at_most_one_open_stream_witness:
  "length (open_handles
      (run_stream [StartSSE (\<lambda>_. None), StartSSE (\<lambda>_. None), StopSSE, StartSSE (\<lambda>_. None)]
         (initial_provider (Some ''jwt'')))) \<le> 1
   \<and> es_closed (sources (snd (startSSEStream (\<lambda>_. None) (example_streaming (Some ''jwt'')))) ! 0)
   \<and> eventSourceRef (snd (startSSEStream (\<lambda>_. None) (example_streaming (Some ''jwt'')))) \<noteq> Some 0"
proof -
  have h: "eventSourceRef (example_streaming (Some ''jwt'')) = Some 0
           \<and> 0 < length (sources (example_streaming (Some ''jwt'')))"
    by (simp add: example_streaming_def)
  from h at_most_one_open_stream
    [where s = "example_streaming (Some ''jwt'')" and h = 0 and ctor = "\<lambda>_. None"
       and ops = "[StartSSE (\<lambda>_. None), StartSSE (\<lambda>_. None), StopSSE, StartSSE (\<lambda>_. None)]"
       and tok = "Some ''jwt''"]
  show ?thesis by blast
qed

text \<open>
  Claim C10. A start made while no token is in storage opens no connection: no
  \<open>EventSource\<close> is constructed and the stored handle is null afterwards; the collection,
  the unread counter, the console and the toasts are untouched, so neither callback
  ran. When no handle was stored before, nothing changes at all.
\<close>

theorem start_without_token:
  "token s = None \<Longrightarrow>
     fst (startSSEStream ctor s) = Inr ()
   \<and> eventSourceRef (snd (startSSEStream ctor s)) = None
   \<and> length (sources (snd (startSSEStream ctor s))) = length (sources s)
   \<and> notifications (snd (startSSEStream ctor s)) = notifications s
   \<and> unreadCount (snd (startSSEStream ctor s)) = unreadCount s
   \<and> console (snd (startSSEStream ctor s)) = console s
   \<and> toasts (snd (startSSEStream ctor s)) = toasts s
   \<and> (eventSourceRef s = None \<longrightarrow> snd (startSSEStream ctor s) = s)"
  by (simp add: startSSEStream_eq stopSSEStream_eq Let_def truthy_def split: option.splits)

theorem start_without_token_witness:
  "eventSourceRef (snd (startSSEStream (\<lambda>_. None) (example_streaming None))) = None
   \<and> length (sources (snd (startSSEStream (\<lambda>_. None) (example_streaming None)))) = 1
   \<and> unreadCount (snd (startSSEStream (\<lambda>_. None) (example_streaming None))) = 1
   \<and> snd (startSSEStream (\<lambda>_. None) (initial_provider None)) = initial_provider None"
proof -
  have h: "token (example_streaming None) = None" by (simp add: example_streaming_def)
  have i: "token (initial_provider None) = None \<and> eventSourceRef (initial_provider None) = None"
    by (simp add: initial_provider_def)
  from start_without_token [OF h, of "\<lambda>_. None"]
  have "eventSourceRef (snd (startSSEStream (\<lambda>_. None) (example_streaming None))) = None
   \<and> length (sources (snd (startSSEStream (\<lambda>_. None) (example_streaming None)))) = 1
   \<and> unreadCount (snd (startSSEStream (\<lambda>_. None) (example_streaming None))) = 1"
    by (simp add: example_streaming_def)
  moreover from i start_without_token [of "initial_provider None" "\<lambda>_. None"]
  have "snd (startSSEStream (\<lambda>_. None) (initial_provider None)) = initial_provider None"
    by blast
  ultimately show ?thesis by blast
qed

end
